theory Spec2Isabelle
  imports Main
begin

section \<open>The workflow definition of dags/dbt\_dag.py\<close>

text \<open>
  The module declares one scheduled workflow. Everything it does is to pass constants to
  constructors of two libraries (the orchestration runtime and its task-grouping plugin)
  and to call the decorated function once, on its last line. The configuration objects
  of the libraries are modelled as records of the keyword arguments they are given. The
  task group is more than its arguments: when the plugin constructs it, it fills it with
  the tasks it derives from the transformation project on disk. Whether a call is
  accepted and what the project yields are decided outside this module, so both are
  parameters.
\<close>

subsection \<open>Data\<close>

text \<open>\<^verbatim>\<open>datetime(2026, 1, 1)\<close>: the three positional arguments, in order.\<close>

datatype datetime = datetime int int int

text \<open>
  A member of an enumeration of the plugin, by the name the module looks up:
  \<^verbatim>\<open>ExecutionMode.LOCAL\<close>, \<^verbatim>\<open>LoadMode.DBT_LS\<close>.
\<close>

datatype ExecutionMode = ExecutionMode string

datatype LoadMode = LoadMode string

record ProjectConfig =
  dbt_project_path :: string

record ProfileConfig =
  profiles_yml_filepath :: string
  profile_name :: string
  target_name :: string

record ExecutionConfig =
  execution_mode :: ExecutionMode

record RenderConfig =
  load_method :: LoadMode

record DbtTaskGroup =
  group_id :: string
  project_config :: ProjectConfig
  profile_config :: ProfileConfig
  execution_config :: ExecutionConfig
  render_config :: RenderConfig

text \<open>
  The task group as the plugin builds it: the keyword arguments, and inside the group
  the tasks the plugin derives from the transformation project, by name, with the edges
  between them.
\<close>

record DbtTaskGroup_obj = DbtTaskGroup +
  tasks :: "string list"
  edges :: "(string \<times> string) list"

text \<open>
  The workflow: the four keyword arguments of the decorator, the task groups created
  while the workflow is the current one, and the dependencies declared between nodes.
\<close>

record DAG =
  dag_id :: string
  schedule :: string
  start_date :: datetime
  catchup :: bool
  task_groups :: "DbtTaskGroup_obj list"
  dependencies :: "(string \<times> string) list"

text \<open>
  The catalog of the host runtime during one scan of its definition source: the
  workflows registered so far, oldest first. A new scan starts from an empty catalog.
\<close>

record runtime =
  catalog :: "DAG list"

subsection \<open>The libraries\<close>

text \<open>
  Every constructor the module calls and every enumeration member it looks up may raise.
  Which values are rejected is decided by the libraries (and by the machine: whether a
  path exists), so it is a parameter: for each call, a function that gives the exception
  raised, or \<open>None\<close> when the call returns. The last field is what the plugin reads
  from the transformation project when it builds a task group: the tasks and the edges
  between them. It depends on the files of the project, not on this module.
\<close>

record 'e library =
  DAG_init :: "DAG \<Rightarrow> 'e option"
  ProjectConfig_init :: "ProjectConfig \<Rightarrow> 'e option"
  ProfileConfig_init :: "ProfileConfig \<Rightarrow> 'e option"
  ExecutionMode_getattr :: "string \<Rightarrow> 'e option"
  ExecutionConfig_init :: "ExecutionConfig \<Rightarrow> 'e option"
  LoadMode_getattr :: "string \<Rightarrow> 'e option"
  RenderConfig_init :: "RenderConfig \<Rightarrow> 'e option"
  DbtTaskGroup_init :: "DbtTaskGroup \<Rightarrow> 'e option"
  DbtTaskGroup_render :: "DbtTaskGroup \<Rightarrow> string list \<times> (string \<times> string) list"

text \<open>A call that either raises or returns the object holding its arguments as given.\<close>

definition construct :: "('a \<Rightarrow> 'e option) \<Rightarrow> 'a \<Rightarrow> 'e + 'a" where
  "construct init kwargs = (case init kwargs of Some e \<Rightarrow> Inl e | None \<Rightarrow> Inr kwargs)"

text \<open>
  The constructor of the task group: it raises, or returns the group holding its
  arguments as given and the tasks and edges the plugin has read from the project.
\<close>

definition DbtTaskGroup_new :: "'e library \<Rightarrow> DbtTaskGroup \<Rightarrow> 'e + DbtTaskGroup_obj" where
  "DbtTaskGroup_new L kwargs =
     (case construct (DbtTaskGroup_init L) kwargs of
        Inl e \<Rightarrow> Inl e
      | Inr kw \<Rightarrow>
          Inr \<lparr>group_id = group_id kw, project_config = project_config kw,
               profile_config = profile_config kw,
               execution_config = execution_config kw,
               render_config = render_config kw,
               tasks = fst (DbtTaskGroup_render L kw),
               edges = snd (DbtTaskGroup_render L kw)\<rparr>)"

text \<open>A library that accepts every value, over a project with no model.\<close>

definition accept_all :: "string library" where
  "accept_all =
     \<lparr>DAG_init = (\<lambda>_. None), ProjectConfig_init = (\<lambda>_. None),
      ProfileConfig_init = (\<lambda>_. None), ExecutionMode_getattr = (\<lambda>_. None),
      ExecutionConfig_init = (\<lambda>_. None), LoadMode_getattr = (\<lambda>_. None),
      RenderConfig_init = (\<lambda>_. None), DbtTaskGroup_init = (\<lambda>_. None),
      DbtTaskGroup_render = (\<lambda>_. ([], []))\<rparr>"

text \<open>
  Two states of the transformation project, under a library that accepts every value:
  one model, and two models with an edge between them.
\<close>

definition one_model :: "string library" where
  "one_model = accept_all\<lparr>DbtTaskGroup_render := (\<lambda>_. ([''stg_orders''], []))\<rparr>"

definition two_models :: "string library" where
  "two_models =
     accept_all\<lparr>DbtTaskGroup_render :=
       (\<lambda>_. ([''stg_orders'', ''orders''], [(''stg_orders'', ''orders'')]))\<rparr>"

subsection \<open>The module\<close>

definition DBT_PROJECT_PATH :: string where
  "DBT_PROJECT_PATH = ''/usr/local/airflow/dbt/data_pipeline''"

definition DBT_PROFILES_PATH :: string where
  "DBT_PROFILES_PATH = ''/usr/local/airflow/dbt/data_pipeline/profiles.yml''"

text \<open>
  The body of \<^verbatim>\<open>dbt_pipeline\<close> (lines 15 to 33), run with the workflow under
  construction as the current one. Python evaluates the keyword arguments of
  \<^verbatim>\<open>DbtTaskGroup(...)\<close> from left to right, then calls the constructor, which adds
  the group to the current workflow. The group is bound to the local name
  \<^verbatim>\<open>dbt_tg\<close> and the function ends without a \<^verbatim>\<open>return\<close>: its value is
  Python's \<^verbatim>\<open>None\<close>, here \<open>None\<close>.
\<close>

definition dbt_pipeline :: "'e library \<Rightarrow> DAG \<Rightarrow> 'e + (DbtTaskGroup_obj option \<times> DAG)" where
  "dbt_pipeline L this_dag =
     (case construct (ProjectConfig_init L) \<lparr>dbt_project_path = DBT_PROJECT_PATH\<rparr> of
        Inl e \<Rightarrow> Inl e
      | Inr pc \<Rightarrow>
     (case construct (ProfileConfig_init L)
             \<lparr>profiles_yml_filepath = DBT_PROFILES_PATH,
              profile_name = ''data_pipeline'',
              target_name = ''dev''\<rparr> of
        Inl e \<Rightarrow> Inl e
      | Inr pf \<Rightarrow>
     (case construct (ExecutionMode_getattr L) ''LOCAL'' of
        Inl e \<Rightarrow> Inl e
      | Inr local \<Rightarrow>
     (case construct (ExecutionConfig_init L) \<lparr>execution_mode = ExecutionMode local\<rparr> of
        Inl e \<Rightarrow> Inl e
      | Inr ec \<Rightarrow>
     (case construct (LoadMode_getattr L) ''DBT_LS'' of
        Inl e \<Rightarrow> Inl e
      | Inr dbt_ls \<Rightarrow>
     (case construct (RenderConfig_init L) \<lparr>load_method = LoadMode dbt_ls\<rparr> of
        Inl e \<Rightarrow> Inl e
      | Inr rc \<Rightarrow>
     (case DbtTaskGroup_new L
             \<lparr>group_id = ''dbt_tg'', project_config = pc, profile_config = pf,
              execution_config = ec, render_config = rc\<rparr> of
        Inl e \<Rightarrow> Inl e
      | Inr dbt_tg \<Rightarrow>
          Inr (None, this_dag\<lparr>task_groups := task_groups this_dag @ [dbt_tg]\<rparr>))))))))"

text \<open>
  Modelled from the spec: the decorator \<^verbatim>\<open>dag\<close> belongs to the orchestration
  library, whose code is not in this repository.
  \<^verbatim>\<open>@dag(dag_id=..., schedule=..., start_date=..., catchup=...)\<close> (lines 9 to 14)
  turns the function into a factory. Calling the factory constructs the workflow from
  the four keyword arguments, with no task yet, runs the function's body with that
  workflow as the current one, registers the workflow with the host runtime (section 6:
  one workflow definition registered into the host orchestration runtime's definition
  catalog) and returns it. The value the body returns is not used.
\<close>

definition dag ::
  "'e library \<Rightarrow> string \<Rightarrow> string \<Rightarrow> datetime \<Rightarrow> bool \<Rightarrow>
   ('e library \<Rightarrow> DAG \<Rightarrow> 'e + ('r \<times> DAG)) \<Rightarrow> runtime \<Rightarrow> 'e + (DAG \<times> runtime)" where
  "dag L dag_id_arg schedule_arg start_date_arg catchup_arg f rt =
     (case construct (DAG_init L)
             \<lparr>dag_id = dag_id_arg, schedule = schedule_arg, start_date = start_date_arg,
              catchup = catchup_arg, task_groups = [], dependencies = []\<rparr> of
        Inl e \<Rightarrow> Inl e
      | Inr dag_obj \<Rightarrow>
     (case f L dag_obj of
        Inl e \<Rightarrow> Inl e
      | Inr (_, dag_obj') \<Rightarrow> Inr (dag_obj', rt\<lparr>catalog := catalog rt @ [dag_obj']\<rparr>)))"

text \<open>
  Loading the module: the two constants, the decorated function, and on line 35 the one
  call \<^verbatim>\<open>dbt_pipeline()\<close>, whose result is dropped. There is no
  \<^verbatim>\<open>try\<close> in the module, so an exception raised by any call ends the load and
  reaches the loader; nothing follows line 35.
\<close>

definition load_module :: "'e library \<Rightarrow> runtime \<Rightarrow> 'e + runtime" where
  "load_module L rt =
     (case dag L ''dbt_snowflake_pipeline'' ''@daily'' (datetime 2026 1 1) False
             dbt_pipeline rt of
        Inl e \<Rightarrow> Inl e
      | Inr (_, rt') \<Rightarrow> Inr rt')"

section \<open>What a load does\<close>

subsection \<open>Calls that return\<close>

lemma construct_Inr: "construct init x = Inr y \<longleftrightarrow> init x = None \<and> y = x"
  by (auto simp: construct_def split: option.splits)

lemma construct_Inl: "construct init x = Inl e \<longleftrightarrow> init x = Some e"
  by (simp add: construct_def split: option.splits)

lemma DbtTaskGroup_new_Inr:
  "DbtTaskGroup_new L kw = Inr g \<longleftrightarrow>
     DbtTaskGroup_init L kw = None \<and>
     g = \<lparr>group_id = group_id kw, project_config = project_config kw,
          profile_config = profile_config kw, execution_config = execution_config kw,
          render_config = render_config kw,
          tasks = fst (DbtTaskGroup_render L kw), edges = snd (DbtTaskGroup_render L kw)\<rparr>"
  by (auto simp: DbtTaskGroup_new_def construct_def split: option.splits)

text \<open>
  When the body returns, it has added one group: the declared values, and what the
  plugin has read from the project.
\<close>

lemma dbt_pipeline_Inr:
  assumes "dbt_pipeline L d = Inr (r, d')"
  shows "r = None"
    and "d' = d\<lparr>task_groups := task_groups d @
           [\<lparr>group_id = ''dbt_tg'',
                 project_config = \<lparr>dbt_project_path = DBT_PROJECT_PATH\<rparr>,
                 profile_config = \<lparr>profiles_yml_filepath = DBT_PROFILES_PATH,
                                   profile_name = ''data_pipeline'', target_name = ''dev''\<rparr>,
                 execution_config = \<lparr>execution_mode = ExecutionMode ''LOCAL''\<rparr>,
                 render_config = \<lparr>load_method = LoadMode ''DBT_LS''\<rparr>,
                 tasks = fst (DbtTaskGroup_render L
                 (\<lparr>group_id = ''dbt_tg'',
                 project_config = \<lparr>dbt_project_path = DBT_PROJECT_PATH\<rparr>,
                 profile_config = \<lparr>profiles_yml_filepath = DBT_PROFILES_PATH,
                                   profile_name = ''data_pipeline'', target_name = ''dev''\<rparr>,
                 execution_config = \<lparr>execution_mode = ExecutionMode ''LOCAL''\<rparr>,
                 render_config = \<lparr>load_method = LoadMode ''DBT_LS''\<rparr>\<rparr>)), edges = snd (DbtTaskGroup_render L
                 (\<lparr>group_id = ''dbt_tg'',
                 project_config = \<lparr>dbt_project_path = DBT_PROJECT_PATH\<rparr>,
                 profile_config = \<lparr>profiles_yml_filepath = DBT_PROFILES_PATH,
                                   profile_name = ''data_pipeline'', target_name = ''dev''\<rparr>,
                 execution_config = \<lparr>execution_mode = ExecutionMode ''LOCAL''\<rparr>,
                 render_config = \<lparr>load_method = LoadMode ''DBT_LS''\<rparr>\<rparr>))\<rparr>]\<rparr>"
  using assms
  by (auto simp: dbt_pipeline_def construct_Inr DbtTaskGroup_new_Inr split: sum.splits)

text \<open>What the factory call on line 35 returns, when it returns.\<close>

lemma dag_dbt_pipeline_Inr:
  assumes "dag L i s sd c dbt_pipeline rt = Inr (w, rt')"
  shows "w = \<lparr>dag_id = i, schedule = s, start_date = sd, catchup = c,
             task_groups =
               [\<lparr>group_id = ''dbt_tg'',
                 project_config = \<lparr>dbt_project_path = DBT_PROJECT_PATH\<rparr>,
                 profile_config = \<lparr>profiles_yml_filepath = DBT_PROFILES_PATH,
                                   profile_name = ''data_pipeline'', target_name = ''dev''\<rparr>,
                 execution_config = \<lparr>execution_mode = ExecutionMode ''LOCAL''\<rparr>,
                 render_config = \<lparr>load_method = LoadMode ''DBT_LS''\<rparr>,
                 tasks = fst (DbtTaskGroup_render L
                 (\<lparr>group_id = ''dbt_tg'',
                 project_config = \<lparr>dbt_project_path = DBT_PROJECT_PATH\<rparr>,
                 profile_config = \<lparr>profiles_yml_filepath = DBT_PROFILES_PATH,
                                   profile_name = ''data_pipeline'', target_name = ''dev''\<rparr>,
                 execution_config = \<lparr>execution_mode = ExecutionMode ''LOCAL''\<rparr>,
                 render_config = \<lparr>load_method = LoadMode ''DBT_LS''\<rparr>\<rparr>)), edges = snd (DbtTaskGroup_render L
                 (\<lparr>group_id = ''dbt_tg'',
                 project_config = \<lparr>dbt_project_path = DBT_PROJECT_PATH\<rparr>,
                 profile_config = \<lparr>profiles_yml_filepath = DBT_PROFILES_PATH,
                                   profile_name = ''data_pipeline'', target_name = ''dev''\<rparr>,
                 execution_config = \<lparr>execution_mode = ExecutionMode ''LOCAL''\<rparr>,
                 render_config = \<lparr>load_method = LoadMode ''DBT_LS''\<rparr>\<rparr>))\<rparr>],
             dependencies = []\<rparr>"
    and "rt' = rt\<lparr>catalog := catalog rt @ [w]\<rparr>"
  using assms
  by (auto simp: dag_def construct_Inr split: sum.splits dest!: dbt_pipeline_Inr(2))

lemma load_module_Inr_dag:
  assumes "load_module L rt = Inr rt'"
  shows "\<exists>w. dag L ''dbt_snowflake_pipeline'' ''@daily'' (datetime 2026 1 1) False
                dbt_pipeline rt = Inr (w, rt')"
  using assms by (auto simp: load_module_def split: sum.splits)

lemma load_module_Inr:
  assumes "load_module L rt = Inr rt'"
  shows "rt' = rt\<lparr>catalog := catalog rt @
           [\<lparr>dag_id = ''dbt_snowflake_pipeline'', schedule = ''@daily'',
             start_date = datetime 2026 1 1, catchup = False,
             task_groups =
               [\<lparr>group_id = ''dbt_tg'',
                 project_config = \<lparr>dbt_project_path = DBT_PROJECT_PATH\<rparr>,
                 profile_config = \<lparr>profiles_yml_filepath = DBT_PROFILES_PATH,
                                   profile_name = ''data_pipeline'', target_name = ''dev''\<rparr>,
                 execution_config = \<lparr>execution_mode = ExecutionMode ''LOCAL''\<rparr>,
                 render_config = \<lparr>load_method = LoadMode ''DBT_LS''\<rparr>,
                 tasks = fst (DbtTaskGroup_render L
                 (\<lparr>group_id = ''dbt_tg'',
                 project_config = \<lparr>dbt_project_path = DBT_PROJECT_PATH\<rparr>,
                 profile_config = \<lparr>profiles_yml_filepath = DBT_PROFILES_PATH,
                                   profile_name = ''data_pipeline'', target_name = ''dev''\<rparr>,
                 execution_config = \<lparr>execution_mode = ExecutionMode ''LOCAL''\<rparr>,
                 render_config = \<lparr>load_method = LoadMode ''DBT_LS''\<rparr>\<rparr>)), edges = snd (DbtTaskGroup_render L
                 (\<lparr>group_id = ''dbt_tg'',
                 project_config = \<lparr>dbt_project_path = DBT_PROJECT_PATH\<rparr>,
                 profile_config = \<lparr>profiles_yml_filepath = DBT_PROFILES_PATH,
                                   profile_name = ''data_pipeline'', target_name = ''dev''\<rparr>,
                 execution_config = \<lparr>execution_mode = ExecutionMode ''LOCAL''\<rparr>,
                 render_config = \<lparr>load_method = LoadMode ''DBT_LS''\<rparr>\<rparr>))\<rparr>],
             dependencies = []\<rparr>]\<rparr>"
proof -
  from load_module_Inr_dag [OF assms] obtain w
    where w: "dag L ''dbt_snowflake_pipeline'' ''@daily'' (datetime 2026 1 1) False
                dbt_pipeline rt = Inr (w, rt')" ..
  from dag_dbt_pipeline_Inr [OF w] show ?thesis by simp
qed

text \<open>With a library that accepts every value the load returns.\<close>

lemma load_module_accept_all:
  "load_module accept_all rt = Inr (rt\<lparr>catalog := catalog rt @
           [\<lparr>dag_id = ''dbt_snowflake_pipeline'', schedule = ''@daily'',
             start_date = datetime 2026 1 1, catchup = False,
             task_groups =
               [\<lparr>group_id = ''dbt_tg'',
                 project_config = \<lparr>dbt_project_path = DBT_PROJECT_PATH\<rparr>,
                 profile_config = \<lparr>profiles_yml_filepath = DBT_PROFILES_PATH,
                                   profile_name = ''data_pipeline'', target_name = ''dev''\<rparr>,
                 execution_config = \<lparr>execution_mode = ExecutionMode ''LOCAL''\<rparr>,
                 render_config = \<lparr>load_method = LoadMode ''DBT_LS''\<rparr>,
                 tasks = [], edges = []\<rparr>],
             dependencies = []\<rparr>]\<rparr>)"
  by (simp add: load_module_def dag_def dbt_pipeline_def DbtTaskGroup_new_def construct_def
        accept_all_def)

subsection \<open>The load method\<close>

text \<open>
  C1, evaluated: a load that returns has given the task group the load method
  \<^verbatim>\<open>LoadMode.DBT_LS\<close> (line 31), the member of the plugin's enumeration named after
  the transformation tool's \<^verbatim>\<open>ls\<close> command, while the comment on the same line
  gives the purpose of the choice as avoiding a run of the tool at parse time.
\<close>

theorem load_selects_DBT_LS:
  "\<exists>rt'. load_module accept_all \<lparr>catalog = []\<rparr> = Inr rt' \<and>
     map (\<lambda>g. load_method (render_config g)) (task_groups (last (catalog rt')))
       = [LoadMode ''DBT_LS'']"
  by (simp add: load_module_accept_all)

subsection \<open>The workflow registered\<close>

text \<open>
  C2: a load of the module that returns has added exactly one workflow definition to the
  catalog of the host runtime, and the identifier of that workflow is the declared name
  \<^verbatim>\<open>dbt_snowflake_pipeline\<close>.
\<close>

theorem load_registers_one_workflow:
  assumes "load_module L rt = Inr rt'"
  shows "\<exists>w. catalog rt' = catalog rt @ [w] \<and> dag_id w = ''dbt_snowflake_pipeline''"
  using load_module_Inr [OF assms] by simp

theorem load_registers_one_workflow_witness:
  "\<exists>rt'. load_module accept_all \<lparr>catalog = []\<rparr> = Inr rt' \<and>
     (\<exists>w. catalog rt' = [w] \<and> dag_id w = ''dbt_snowflake_pipeline'')"
proof -
  obtain rt' where h: "load_module accept_all \<lparr>catalog = []\<rparr> = Inr rt'"
    by (simp add: load_module_accept_all)
  from load_registers_one_workflow [OF h] h show ?thesis by simp
qed

text \<open>
  C3: the workflow a load constructs has the schedule \<^verbatim>\<open>@daily\<close>, the start date
  2026-01-01 and the catchup flag false.
\<close>

theorem workflow_schedule_start_catchup:
  assumes "load_module L rt = Inr rt'"
  shows "schedule (last (catalog rt')) = ''@daily'' \<and>
         start_date (last (catalog rt')) = datetime 2026 1 1 \<and>
         catchup (last (catalog rt')) = False"
  using load_module_Inr [OF assms] by simp

theorem workflow_schedule_start_catchup_witness:
  "\<exists>rt'. load_module accept_all \<lparr>catalog = []\<rparr> = Inr rt' \<and>
     schedule (last (catalog rt')) = ''@daily'' \<and>
     start_date (last (catalog rt')) = datetime 2026 1 1 \<and>
     catchup (last (catalog rt')) = False"
proof -
  obtain rt' where h: "load_module accept_all \<lparr>catalog = []\<rparr> = Inr rt'"
    by (simp add: load_module_accept_all)
  from workflow_schedule_start_catchup [OF h] h show ?thesis by blast
qed

text \<open>
  C4: the four settings of the nested task group are the declared values as written:
  the project path, the path of the profiles file, the execution mode
  \<^verbatim>\<open>ExecutionMode.LOCAL\<close> and the load method \<^verbatim>\<open>LoadMode.DBT_LS\<close>. Nothing is
  transformed and nothing is filled in by the module.
\<close>

theorem task_group_settings_verbatim:
  assumes "load_module L rt = Inr rt'"
  shows "\<exists>g. task_groups (last (catalog rt')) = [g] \<and>
           dbt_project_path (project_config g) = ''/usr/local/airflow/dbt/data_pipeline'' \<and>
           profiles_yml_filepath (profile_config g) =
             ''/usr/local/airflow/dbt/data_pipeline/profiles.yml'' \<and>
           execution_mode (execution_config g) = ExecutionMode ''LOCAL'' \<and>
           load_method (render_config g) = LoadMode ''DBT_LS''"
  using load_module_Inr [OF assms]
  by (simp add: DBT_PROJECT_PATH_def DBT_PROFILES_PATH_def)

theorem task_group_settings_verbatim_witness:
  "\<exists>rt' g. load_module accept_all \<lparr>catalog = []\<rparr> = Inr rt' \<and>
     task_groups (last (catalog rt')) = [g] \<and>
     dbt_project_path (project_config g) = ''/usr/local/airflow/dbt/data_pipeline'' \<and>
     profiles_yml_filepath (profile_config g) =
       ''/usr/local/airflow/dbt/data_pipeline/profiles.yml'' \<and>
     execution_mode (execution_config g) = ExecutionMode ''LOCAL'' \<and>
     load_method (render_config g) = LoadMode ''DBT_LS''"
proof -
  obtain rt' where h: "load_module accept_all \<lparr>catalog = []\<rparr> = Inr rt'"
    by (simp add: load_module_accept_all)
  from task_group_settings_verbatim [OF h] h show ?thesis by blast
qed

text \<open>
  C10: the profiles file lies inside the project directory: its path is the project
  path followed by \<^verbatim>\<open>/profiles.yml\<close>, for the two constants of the module and for
  the paths the task group holds. The profile selected is \<^verbatim>\<open>data_pipeline\<close>, the
  target \<^verbatim>\<open>dev\<close>.
\<close>

theorem profile_inside_project:
  assumes "load_module L rt = Inr rt'"
  shows "DBT_PROFILES_PATH = DBT_PROJECT_PATH @ ''/profiles.yml'' \<and>
         (\<exists>g. task_groups (last (catalog rt')) = [g] \<and>
           profiles_yml_filepath (profile_config g) =
             dbt_project_path (project_config g) @ ''/profiles.yml'' \<and>
           profile_name (profile_config g) = ''data_pipeline'' \<and>
           target_name (profile_config g) = ''dev'')"
  using load_module_Inr [OF assms]
  by (simp add: DBT_PROJECT_PATH_def DBT_PROFILES_PATH_def)

theorem profile_inside_project_witness:
  "\<exists>rt' g. load_module accept_all \<lparr>catalog = []\<rparr> = Inr rt' \<and>
     task_groups (last (catalog rt')) = [g] \<and>
     profiles_yml_filepath (profile_config g) =
       dbt_project_path (project_config g) @ ''/profiles.yml'' \<and>
     profile_name (profile_config g) = ''data_pipeline'' \<and>
     target_name (profile_config g) = ''dev''"
proof -
  obtain rt' where h: "load_module accept_all \<lparr>catalog = []\<rparr> = Inr rt'"
    by (simp add: load_module_accept_all)
  from profile_inside_project [OF h] h show ?thesis by blast
qed

subsection \<open>The body of the workflow\<close>

text \<open>
  C9: the body of the workflow declares exactly one node, a task group with the
  identifier \<^verbatim>\<open>dbt_tg\<close>. The workflow it runs in is otherwise left as it was, so no
  other task and no dependency is declared, and the function returns Python's
  \<^verbatim>\<open>None\<close>.
\<close>

theorem body_declares_one_task_group:
  assumes "dbt_pipeline L d = Inr (r, d')"
  shows "r = None \<and>
         (\<exists>g. group_id g = ''dbt_tg'' \<and> d' = d\<lparr>task_groups := task_groups d @ [g]\<rparr>)"
  using dbt_pipeline_Inr [OF assms] by (metis DbtTaskGroup.select_convs(1))

theorem body_declares_one_task_group_witness:
  "\<exists>d'. dbt_pipeline accept_all
           \<lparr>dag_id = ''dbt_snowflake_pipeline'', schedule = ''@daily'',
            start_date = datetime 2026 1 1, catchup = False,
            task_groups = [], dependencies = []\<rparr> = Inr (None, d') \<and>
         map group_id (task_groups d') = [''dbt_tg''] \<and> dependencies d' = []"
proof -
  obtain r d' where h: "dbt_pipeline accept_all
           \<lparr>dag_id = ''dbt_snowflake_pipeline'', schedule = ''@daily'',
            start_date = datetime 2026 1 1, catchup = False,
            task_groups = [], dependencies = []\<rparr> = Inr (r, d')"
    by (simp add: dbt_pipeline_def DbtTaskGroup_new_def construct_def accept_all_def)
  from body_declares_one_task_group [OF h] h show ?thesis by auto
qed

subsection \<open>Loading again\<close>

text \<open>
  The workflow a load registers is not the same for any two loads: the task group holds
  what the plugin has read from the transformation project, and two loads over projects
  with different models register different workflows, though both return.
\<close>

theorem reload_other_project_counterexample:
  "\<not> isl (load_module one_model \<lparr>catalog = []\<rparr>) \<and>
   \<not> isl (load_module two_models \<lparr>catalog = []\<rparr>) \<and>
   last (catalog (projr (load_module one_model \<lparr>catalog = []\<rparr>))) \<noteq>
   last (catalog (projr (load_module two_models \<lparr>catalog = []\<rparr>)))"
  by (simp add: load_module_def dag_def dbt_pipeline_def DbtTaskGroup_new_def construct_def
        one_model_def two_models_def accept_all_def)

text \<open>
  C5, amended: loading the module again gives the same workflow as long as the plugin
  reads the same tasks and edges from the transformation project for the declared task
  group. Any two such loads that return, whatever the state of the runtime and whichever
  values the libraries would reject, have registered workflows that are equal as values,
  attribute by attribute: the module itself reads nothing of its environment.
\<close>

theorem reload_same_workflow:
  assumes "load_module L1 rt1 = Inr rt1'" and "load_module L2 rt2 = Inr rt2'"
    and "DbtTaskGroup_render L1
           \<lparr>group_id = ''dbt_tg'',
          project_config = \<lparr>dbt_project_path = DBT_PROJECT_PATH\<rparr>,
          profile_config = \<lparr>profiles_yml_filepath = DBT_PROFILES_PATH,
                     profile_name = ''data_pipeline'', target_name = ''dev''\<rparr>,
          execution_config = \<lparr>execution_mode = ExecutionMode ''LOCAL''\<rparr>,
          render_config = \<lparr>load_method = LoadMode ''DBT_LS''\<rparr>\<rparr> =
         DbtTaskGroup_render L2
           \<lparr>group_id = ''dbt_tg'',
          project_config = \<lparr>dbt_project_path = DBT_PROJECT_PATH\<rparr>,
          profile_config = \<lparr>profiles_yml_filepath = DBT_PROFILES_PATH,
                     profile_name = ''data_pipeline'', target_name = ''dev''\<rparr>,
          execution_config = \<lparr>execution_mode = ExecutionMode ''LOCAL''\<rparr>,
          render_config = \<lparr>load_method = LoadMode ''DBT_LS''\<rparr>\<rparr>"
  shows "last (catalog rt1') = last (catalog rt2')"
  using load_module_Inr [OF assms(1)] load_module_Inr [OF assms(2)] assms(3) by simp

text \<open>
  Two loads over the same project, by two versions of the plugin that differ in the
  members of an enumeration the module does not use.
\<close>

theorem reload_same_workflow_witness:
  "\<exists>rt1' rt2'.
     load_module one_model \<lparr>catalog = []\<rparr> = Inr rt1' \<and>
     load_module
       (one_model\<lparr>ExecutionMode_getattr :=
          \<lambda>n. if n = ''DOCKER'' then Some ''no such member'' else None\<rparr>)
       \<lparr>catalog = []\<rparr> = Inr rt2' \<and>
     last (catalog rt1') = last (catalog rt2') \<and>
     map tasks (task_groups (last (catalog rt1'))) = [[''stg_orders'']]"
proof -
  obtain rt1' where h1: "load_module one_model \<lparr>catalog = []\<rparr> = Inr rt1'"
    by (simp add: load_module_def dag_def dbt_pipeline_def DbtTaskGroup_new_def
          construct_def one_model_def accept_all_def)
  obtain rt2' where h2:
    "load_module
       (one_model\<lparr>ExecutionMode_getattr :=
          \<lambda>n. if n = ''DOCKER'' then Some ''no such member'' else None\<rparr>)
       \<lparr>catalog = []\<rparr> = Inr rt2'"
    by (simp add: load_module_def dag_def dbt_pipeline_def DbtTaskGroup_new_def
          construct_def one_model_def accept_all_def)
  have same: "last (catalog rt1') = last (catalog rt2')"
    by (rule reload_same_workflow [OF h1 h2]) (simp add: one_model_def)
  have one: "map tasks (task_groups (last (catalog rt1'))) = [[''stg_orders'']]"
    using load_module_Inr [OF h1] by (simp add: one_model_def)
  show ?thesis
    by (intro exI [of _ rt1'] exI [of _ rt2'] conjI) (fact h1, fact h2, fact same, fact one)
qed

subsection \<open>Calls that raise\<close>

text \<open>
  C6: the module swallows no error. The calls of a load, in the order Python evaluates
  them, are listed with the values they are given; a load returns when none of them
  raises, and otherwise ends with the first exception raised, which reaches the loader
  of the host runtime. Which values a library rejects (a malformed schedule, a path
  that does not exist, an enumeration member it does not have) is the library's
  decision.
\<close>

theorem load_raises_first_exception:
  "(case List.map_filter (\<lambda>raised. raised)
      [DAG_init L \<lparr>dag_id = ''dbt_snowflake_pipeline'', schedule = ''@daily'',
                   start_date = datetime 2026 1 1, catchup = False,
                   task_groups = [], dependencies = []\<rparr>,
       ProjectConfig_init L \<lparr>dbt_project_path = DBT_PROJECT_PATH\<rparr>,
       ProfileConfig_init L \<lparr>profiles_yml_filepath = DBT_PROFILES_PATH,
                             profile_name = ''data_pipeline'', target_name = ''dev''\<rparr>,
       ExecutionMode_getattr L ''LOCAL'',
       ExecutionConfig_init L \<lparr>execution_mode = ExecutionMode ''LOCAL''\<rparr>,
       LoadMode_getattr L ''DBT_LS'',
       RenderConfig_init L \<lparr>load_method = LoadMode ''DBT_LS''\<rparr>,
       DbtTaskGroup_init L
         \<lparr>group_id = ''dbt_tg'',
          project_config = \<lparr>dbt_project_path = DBT_PROJECT_PATH\<rparr>,
          profile_config = \<lparr>profiles_yml_filepath = DBT_PROFILES_PATH,
                            profile_name = ''data_pipeline'', target_name = ''dev''\<rparr>,
          execution_config = \<lparr>execution_mode = ExecutionMode ''LOCAL''\<rparr>,
          render_config = \<lparr>load_method = LoadMode ''DBT_LS''\<rparr>\<rparr>] of
      [] \<Rightarrow> \<exists>rt'. load_module L rt = Inr rt'
    | e # _ \<Rightarrow> load_module L rt = Inl e)"
  by (simp add: load_module_def dag_def dbt_pipeline_def DbtTaskGroup_new_def construct_def
        split: option.splits)

text \<open>
  Three libraries that reject a value: one that finds no profiles file, one without the
  member \<^verbatim>\<open>DBT_LS\<close> (its later failure is never reached), one that rejects the
  schedule.
\<close>

theorem load_raises_first_exception_witness:
  "load_module
     (accept_all\<lparr>ProfileConfig_init := \<lambda>p. Some (''no file '' @ profiles_yml_filepath p)\<rparr>)
     \<lparr>catalog = []\<rparr> = Inl ''no file /usr/local/airflow/dbt/data_pipeline/profiles.yml'' \<and>
   load_module
     (accept_all\<lparr>LoadMode_getattr := \<lambda>n. Some (''no member '' @ n),
                 DbtTaskGroup_init := \<lambda>g. Some ''dbt not found''\<rparr>)
     \<lparr>catalog = []\<rparr> = Inl ''no member DBT_LS'' \<and>
   load_module
     (accept_all\<lparr>DAG_init :=
        \<lambda>d. if schedule d = ''@daily'' then Some ''bad schedule'' else None\<rparr>)
     \<lparr>catalog = []\<rparr> = Inl ''bad schedule''"
  using
    load_raises_first_exception
      [of "accept_all\<lparr>ProfileConfig_init :=
             \<lambda>p. Some (''no file '' @ profiles_yml_filepath p)\<rparr>"
          "\<lparr>catalog = []\<rparr>"]
    load_raises_first_exception
      [of "accept_all\<lparr>LoadMode_getattr := \<lambda>n. Some (''no member '' @ n),
                       DbtTaskGroup_init := \<lambda>g. Some ''dbt not found''\<rparr>"
          "\<lparr>catalog = []\<rparr>"]
    load_raises_first_exception
      [of "accept_all\<lparr>DAG_init :=
             \<lambda>d. if schedule d = ''@daily'' then Some ''bad schedule'' else None\<rparr>"
          "\<lparr>catalog = []\<rparr>"]
  by (simp add: accept_all_def DBT_PROFILES_PATH_def)

end
